theory Spec2Isabelle
  imports Main
begin

section \<open>Strings and values of the JavaScript program\<close>

text \<open>
  A JavaScript string is a sequence of UTF-16 code units. The regular expressions of the
  program carry no \<open>u\<close> flag, so \<open>[^}]\<close>, \<open>[\s\S]\<close>, \<open>slice\<close> and \<open>trim\<close> all work on code
  units. A code unit is modelled by its number; \<open>asc\<close> turns an ASCII literal into the
  code units it denotes.
\<close>

type_synonym jsstring = "nat list"

abbreviation asc :: "string \<Rightarrow> jsstring" where
  "asc s \<equiv> map of_char s"

text \<open>
  \<open>String.prototype.trim\<close> removes the white space and line terminators of ECMAScript
  from both ends.
\<close>

definition isWhiteSpace :: "nat \<Rightarrow> bool" where
  "isWhiteSpace c =
     (c \<in> set [9, 10, 11, 12, 13, 32, 160, 5760, 8232, 8233, 8239, 8287, 12288, 65279]
      \<or> (8192 \<le> c \<and> c \<le> 8202))"

definition trim :: "jsstring \<Rightarrow> jsstring" where
  "trim s = rev (dropWhile isWhiteSpace (rev (dropWhile isWhiteSpace s)))"

text \<open>\<open>Array.prototype.join\<close>.\<close>

fun join :: "jsstring \<Rightarrow> jsstring list \<Rightarrow> jsstring" where
  "join sep [] = []"
| "join sep [x] = x"
| "join sep (x # y # ys) = x @ sep @ join sep (y # ys)"

subsection \<open>Numbers\<close>

text \<open>
  The program never computes with a number. It tests one (\<open>x || y\<close>, \<open>x && y\<close>,
  \<open>x ? a : b\<close>, \<open>!x\<close>), and it prints one with \<open>String(x)\<close>. ECMAScript's
  \<open>Number::toString\<close> gives different texts to different numbers, the two zeros apart,
  which both print as \<open>0\<close>. So a number is modelled by the text \<open>String\<close> gives for it:
  \<open>NaN\<close>, \<open>Infinity\<close>, \<open>-Infinity\<close>, or a decimal numeral, which starts with a digit
  and goes on with digits, a point and an exponent (\<open>120\<close>, \<open>9.5\<close>, \<open>1e+21\<close>, \<open>1.5e-7\<close>),
  with a minus sign before it for a negative number. This covers the numbers that are
  not integers and the exponent form of the large and the small ones. The type
  \<open>jsnumber\<close> holds the texts of this form; every text that \<open>String\<close> gives for a number
  is among them, and \<open>number t\<close> is the number that prints as \<open>t\<close>.
\<close>

definition isDigit :: "nat \<Rightarrow> bool" where
  "isDigit c = (48 \<le> c \<and> c \<le> 57)"

definition isDecimalText :: "jsstring \<Rightarrow> bool" where
  "isDecimalText u =
     (u \<noteq> [] \<and> isDigit (hd u) \<and> (\<forall>c \<in> set u. isDigit c \<or> c \<in> set (asc ''.e+-'')))"

definition isNumberText :: "jsstring \<Rightarrow> bool" where
  "isNumberText t =
     (t = asc ''NaN'' \<or> t = asc ''Infinity'' \<or> t = asc ''-Infinity'' \<or> isDecimalText t
      \<or> (t \<noteq> [] \<and> hd t = of_char CHR ''-'' \<and> isDecimalText (tl t) \<and> tl t \<noteq> asc ''0''))"

typedef jsnumber = "{t. isNumberText t}"
  morphisms numberText number
  by (rule exI [of _ "asc ''0''"]) (simp add: isNumberText_def isDecimalText_def isDigit_def)

text \<open>A number is falsy when it is a zero or \<open>NaN\<close>.\<close>

definition numberTruthy :: "jsnumber \<Rightarrow> bool" where
  "numberTruthy n = (numberText n \<noteq> asc ''0'' \<and> numberText n \<noteq> asc ''NaN'')"

subsection \<open>Line items\<close>

text \<open>
  A line item is an object whose fields hold scalars: a string, a number or \<open>null\<close>.
  An object is the list of its own properties in the order \<open>Object.keys\<close> enumerates
  them. The value \<open>undefined\<close> of an absent property is \<open>None\<close>, so a JavaScript
  expression over scalars has type \<open>scalar option\<close>.

  The table builders read an item only with literal keys (\<open>item['CakeQty']\<close>, ...), none
  of which names a member of \<open>Object.prototype\<close>: \<open>getField\<close> looks among the own
  properties.
\<close>

datatype scalar =
    Str jsstring
  | Num jsnumber
  | Null

type_synonym item = "(jsstring \<times> scalar) list"

definition getField :: "item \<Rightarrow> jsstring \<Rightarrow> scalar option" where
  "getField obj k = map_of obj k"

text \<open>Truthiness, as \<open>!x\<close>, \<open>x && y\<close>, \<open>x || y\<close> and \<open>x ? a : b\<close> test it.\<close>

fun truthy :: "scalar option \<Rightarrow> bool" where
  "truthy None = False"
| "truthy (Some Null) = False"
| "truthy (Some (Str s)) = (s \<noteq> [])"
| "truthy (Some (Num n)) = numberTruthy n"

text \<open>\<open>a || b\<close>.\<close>

definition lor :: "scalar option \<Rightarrow> scalar option \<Rightarrow> scalar option" where
  "lor a b = (if truthy a then a else b)"

text \<open>\<open>String(x)\<close> for a scalar.\<close>

fun toString :: "scalar option \<Rightarrow> jsstring" where
  "toString None = asc ''undefined''"
| "toString (Some Null) = asc ''null''"
| "toString (Some (Str s)) = s"
| "toString (Some (Num n)) = numberText n"

subsection \<open>Orders\<close>

text \<open>
  A field of an order holds a scalar or a list of line items. Reading \<open>order[k]\<close> with a
  key taken from the template finds the own property \<open>k\<close> and, when there is none, the
  member of \<open>Object.prototype\<close> of that name: one of its functions (\<open>constructor\<close> is the
  function \<open>Object\<close>, the others carry the name of the property), or, for \<open>__proto__\<close>,
  the prototype object itself.
\<close>

datatype jsval =
    Scalar scalar
  | Arr "item list"
  | Native jsstring
  | ProtoObject

type_synonym jsobject = "(jsstring \<times> jsval) list"

definition inherited :: "jsstring \<Rightarrow> jsval option" where
  "inherited k =
     (if k = asc ''constructor'' then Some (Native (asc ''Object''))
      else if k \<in> set [asc ''hasOwnProperty'', asc ''isPrototypeOf'', asc ''propertyIsEnumerable'',
                        asc ''toLocaleString'', asc ''toString'', asc ''valueOf'',
                        asc ''__defineGetter__'', asc ''__defineSetter__'',
                        asc ''__lookupGetter__'', asc ''__lookupSetter__'']
      then Some (Native k)
      else if k = asc ''__proto__'' then Some ProtoObject
      else None)"

definition getProp :: "jsobject \<Rightarrow> jsstring \<Rightarrow> jsval option" where
  "getProp obj k = (case map_of obj k of Some v \<Rightarrow> Some v | None \<Rightarrow> inherited k)"

fun truthyValue :: "jsval option \<Rightarrow> bool" where
  "truthyValue None = False"
| "truthyValue (Some (Scalar x)) = truthy (Some x)"
| "truthyValue (Some (Arr xs)) = True"
| "truthyValue (Some (Native f)) = True"
| "truthyValue (Some ProtoObject) = True"

text \<open>\<open>a ?? b\<close>.\<close>

fun nullish :: "jsval option \<Rightarrow> jsval option \<Rightarrow> jsval option" where
  "nullish None b = b"
| "nullish (Some (Scalar Null)) b = b"
| "nullish (Some v) b = Some v"

text \<open>
  \<open>String(x)\<close> can throw. For a list it joins the texts of the elements with commas
  (\<open>Array.prototype.toString\<close> calls \<open>join\<close>); an element is an object, and its text is
  \<open>[object Object]\<close>, the result of the inherited \<open>toString\<close>. When the element has an
  own property named \<open>toString\<close>, that property hides the inherited function; it holds
  data, not a function, so the conversion goes on to \<open>valueOf\<close>, gets no primitive
  value there either, and throws a \<open>TypeError\<close>. A thrown exception is the value
  \<open>Inl TypeError\<close>; \<open>andThen\<close> passes it on.

  A function of the prototype prints as \<open>function name() { [native code] }\<close>. (ECMAScript
  fixes this form; engines differ in the white space inside it.)
\<close>

datatype error = TypeError

fun andThen :: "error + 'a \<Rightarrow> ('a \<Rightarrow> error + 'b) \<Rightarrow> error + 'b" where
  "andThen (Inl e) f = Inl e"
| "andThen (Inr x) f = f x"

definition hasOwn :: "item \<Rightarrow> jsstring \<Rightarrow> bool" where
  "hasOwn obj k = (k \<in> set (map fst obj))"

fun stringOfValue :: "jsval option \<Rightarrow> error + jsstring" where
  "stringOfValue None = Inr (asc ''undefined'')"
| "stringOfValue (Some (Scalar x)) = Inr (toString (Some x))"
| "stringOfValue (Some (Arr xs)) =
     (if \<exists>x \<in> set xs. hasOwn x (asc ''toString'') then Inl TypeError
      else Inr (join (asc '','') (map (\<lambda>_. asc ''[object Object]'') xs)))"
| "stringOfValue (Some (Native f)) = Inr (asc ''function '' @ f @ asc ''() { [native code] }'')"
| "stringOfValue (Some ProtoObject) = Inr (asc ''[object Object]'')"

text \<open>\<open>Array.isArray(x)\<close>, and the elements of a list.\<close>

fun isArray :: "jsval option \<Rightarrow> bool" where
  "isArray (Some (Arr xs)) = True"
| "isArray _ = False"

fun elements :: "jsval option \<Rightarrow> item list" where
  "elements (Some (Arr xs)) = xs"
| "elements _ = []"

section \<open>The HTML escaper\<close>

text \<open>
  \<^verbatim>\<open>
  function escHtml(str) {
    return String(str)
      .replace(/&/g, '&amp;')
      .replace(/</g, '&lt;')
      .replace(/>/g, '&gt;')
      .replace(/"/g, '&quot;');
  }
  \<close>
  The same function stands in both scripts. It is called with a string or with the field
  of a line item. \<open>replaceChar c r\<close> is \<open>.replace(/c/g, r)\<close> for a one-character
  pattern.
\<close>

definition replaceChar :: "nat \<Rightarrow> jsstring \<Rightarrow> jsstring \<Rightarrow> jsstring" where
  "replaceChar c r s = concat (map (\<lambda>x. if x = c then r else [x]) s)"

definition escHtml :: "scalar option \<Rightarrow> jsstring" where
  "escHtml str =
     replaceChar (of_char CHR 0x22) (asc ''&quot;'')
       (replaceChar (of_char CHR ''>'') (asc ''&gt;'')
         (replaceChar (of_char CHR ''<'') (asc ''&lt;'')
           (replaceChar (of_char CHR ''&'') (asc ''&amp;'') (toString str))))"

section \<open>The line-items table builders\<close>

text \<open>
  Both scripts define \<open>buildLineItemsTable\<close>. The markup around the dynamic text is the
  same in both; the cells differ. \<open>items.map(item => ...).join('')\<close> is
  \<open>join [] (map ... items)\<close>, the rows one after the other.
  \<^verbatim>\<open>
  const items = order['Line Items'];
  if (!items || !Array.isArray(items) || items.length === 0) {
    return '<p style="color:#666;font-style:italic;font-size:10pt;">No line items.</p>';
  }
  \<close>
\<close>

definition noLineItems :: jsstring where
  "noLineItems = asc ''<p style=\"color:#666;font-style:italic;font-size:10pt;\">No line items.</p>''"

definition rowOpen :: jsstring where
  "rowOpen = asc ''<tr>\<newline>      <td class=\"slip-check-cell\"></td>\<newline>      <td class=\"slip-detail-cell\">''"

definition rowMid :: jsstring where
  "rowMid = asc ''</td>\<newline>      <td class=\"slip-qty-cell\">''"

definition rowClose :: jsstring where
  "rowClose = asc ''</td>\<newline>    </tr>''"

definition tableOpen :: jsstring where
  "tableOpen =
     asc ''<table class=\"slip-items-table\">\<newline>''
     @ asc ''    <thead>\<newline>''
     @ asc ''      <tr>\<newline>''
     @ asc ''        <th class=\"slip-check-cell\"></th>\<newline>''
     @ asc ''        <th class=\"slip-detail-cell\">Order Details</th>\<newline>''
     @ asc ''        <th class=\"slip-qty-cell\">Qty</th>\<newline>''
     @ asc ''      </tr>\<newline>''
     @ asc ''    </thead>\<newline>''
     @ asc ''    <tbody>''"

definition tableClose :: jsstring where
  "tableClose = asc ''</tbody>\<newline>  </table>''"

text \<open>
  The printing script (app.js):
  \<^verbatim>\<open>
  const product = escHtml(String(item['Product Description'] || ''));
  const subLines = [
    item['Writing Notes']  ? `<div class="slip-sub">Writing: ${escHtml(item['Writing Notes'])}</div>` : '',
    item['Color']          ? `<div class="slip-sub">Color: ${escHtml(item['Color'])}</div>`           : '',
    item['Add-Ons']        ? `<div class="slip-sub">Add-Ons: ${escHtml(item['Add-Ons'])}</div>`       : '',
    item['Line Item Notes']? `<div class="slip-sub">Notes: ${escHtml(item['Line Item Notes'])}</div>` : '',
  ].join('');
  const qty = escHtml(String(item['CakeQty'] || ''));
  \<close>
\<close>

definition product_app :: "item \<Rightarrow> jsstring" where
  "product_app item =
     escHtml (Some (Str (toString (lor (getField item (asc ''Product Description'')) (Some (Str []))))))"

definition subLines_app :: "item \<Rightarrow> jsstring" where
  "subLines_app item = join []
     [ if truthy (getField item (asc ''Writing Notes''))
       then asc ''<div class=\"slip-sub\">Writing: '' @ escHtml (getField item (asc ''Writing Notes'')) @ asc ''</div>''
       else [],
       if truthy (getField item (asc ''Color''))
       then asc ''<div class=\"slip-sub\">Color: '' @ escHtml (getField item (asc ''Color'')) @ asc ''</div>''
       else [],
       if truthy (getField item (asc ''Add-Ons''))
       then asc ''<div class=\"slip-sub\">Add-Ons: '' @ escHtml (getField item (asc ''Add-Ons'')) @ asc ''</div>''
       else [],
       if truthy (getField item (asc ''Line Item Notes''))
       then asc ''<div class=\"slip-sub\">Notes: '' @ escHtml (getField item (asc ''Line Item Notes'')) @ asc ''</div>''
       else [] ]"

definition qty_app :: "item \<Rightarrow> jsstring" where
  "qty_app item =
     escHtml (Some (Str (toString (lor (getField item (asc ''CakeQty'')) (Some (Str []))))))"

definition row_app :: "item \<Rightarrow> jsstring" where
  "row_app item = rowOpen @ product_app item @ subLines_app item @ rowMid @ qty_app item @ rowClose"

definition buildLineItemsTable_app :: "jsobject \<Rightarrow> jsstring" where
  "buildLineItemsTable_app order =
     (let items = getProp order (asc ''Line Items'') in
      if \<not> truthyValue items \<or> \<not> isArray items \<or> length (elements items) = 0 then noLineItems
      else tableOpen @ join [] (map row_app (elements items)) @ tableClose)"

text \<open>
  The template designer (designer.js):
  \<^verbatim>\<open>
  const product = item['Product Name'] || item['Product'] || item['Item']
                  || item['Order Details'] || item['Description'] || '';
  const qty     = item['Qty'] || item['Quantity'] || item['QTY'] || '';
  return `<tr> ... ${escHtml(String(product))} ... ${escHtml(String(qty))} ... </tr>`;
  \<close>
  \<open>||\<close> associates to the left.
\<close>

definition product_designer :: "item \<Rightarrow> scalar option" where
  "product_designer item =
     lor (lor (lor (lor (lor (getField item (asc ''Product Name'')) (getField item (asc ''Product'')))
                        (getField item (asc ''Item'')))
                   (getField item (asc ''Order Details'')))
              (getField item (asc ''Description'')))
         (Some (Str []))"

definition qty_designer :: "item \<Rightarrow> scalar option" where
  "qty_designer item =
     lor (lor (lor (getField item (asc ''Qty'')) (getField item (asc ''Quantity'')))
              (getField item (asc ''QTY'')))
         (Some (Str []))"

definition row_designer :: "item \<Rightarrow> jsstring" where
  "row_designer item =
     rowOpen @ escHtml (Some (Str (toString (product_designer item))))
     @ rowMid @ escHtml (Some (Str (toString (qty_designer item)))) @ rowClose"

definition buildLineItemsTable_designer :: "jsobject \<Rightarrow> jsstring" where
  "buildLineItemsTable_designer order =
     (let items = getProp order (asc ''Line Items'') in
      if \<not> truthyValue items \<or> \<not> isArray items \<or> length (elements items) = 0 then noLineItems
      else tableOpen @ join [] (map row_designer (elements items)) @ tableClose)"

section \<open>Matching the two regular expressions\<close>

text \<open>
  \<open>stripPrefix p s\<close> is the rest of \<open>s\<close> after the literal \<open>p\<close>, when \<open>s\<close> starts with it.
  \<open>findSub p s\<close> splits \<open>s\<close> at the first occurrence of \<open>p\<close>: this is what the lazy
  \<open>[\s\S]*?\<close> followed by a literal does.
\<close>

definition stripPrefix :: "jsstring \<Rightarrow> jsstring \<Rightarrow> jsstring option" where
  "stripPrefix p s = (if take (length p) s = p then Some (drop (length p) s) else None)"

fun findSub :: "jsstring \<Rightarrow> jsstring \<Rightarrow> (jsstring \<times> jsstring) option" where
  "findSub p [] = (if p = [] then Some ([], []) else None)"
| "findSub p (c # s) =
     (case stripPrefix p (c # s) of
        Some r \<Rightarrow> Some ([], r)
      | None \<Rightarrow> (case findSub p s of Some (a, r) \<Rightarrow> Some (c # a, r) | None \<Rightarrow> None))"

text \<open>
  \<open>([^}]+)\}\}\<close>: the greedy class takes every character up to the first \<open>}\<close>; giving
  characters back cannot help, since the next one must be \<open>}\<close>. So the group is the
  longest run without \<open>}\<close>, it must not be empty, and \<open>}}\<close> must follow.
\<close>

definition matchKey :: "jsstring \<Rightarrow> (jsstring \<times> jsstring) option" where
  "matchKey r =
     (let key = takeWhile (\<lambda>c. c \<noteq> of_char CHR ''}'') r in
      if key = [] then None
      else (case stripPrefix (asc ''}}'') (dropWhile (\<lambda>c. c \<noteq> of_char CHR ''}'') r) of
              None \<Rightarrow> None
            | Some rest \<Rightarrow> Some (key, rest)))"

text \<open>
  \<open>/\{\{#([^}]+)\}\}([\s\S]*?)\{\{\/\1\}\}/\<close> tried at the start of \<open>s\<close>: the key, the
  content, and what follows the match.
\<close>

definition matchConditional :: "jsstring \<Rightarrow> (jsstring \<times> jsstring \<times> jsstring) option" where
  "matchConditional s =
     (case stripPrefix (asc ''{{#'') s of
        None \<Rightarrow> None
      | Some r \<Rightarrow>
          (case matchKey r of
             None \<Rightarrow> None
           | Some (key, r') \<Rightarrow>
               (case findSub (asc ''{{/'' @ key @ asc ''}}'') r' of
                  None \<Rightarrow> None
                | Some (content, rest) \<Rightarrow> Some (key, content, rest))))"

text \<open>\<open>/\{\{([^}]+)\}\}/\<close> tried at the start of \<open>s\<close>: the key and what follows the match.\<close>

definition matchPlaceholder :: "jsstring \<Rightarrow> (jsstring \<times> jsstring) option" where
  "matchPlaceholder s =
     (case stripPrefix (asc ''{{'') s of None \<Rightarrow> None | Some r \<Rightarrow> matchKey r)"

lemma stripPrefix_Some: "stripPrefix p s = Some r \<Longrightarrow> s = p @ r"
  by (metis append_take_drop_id option.distinct(1) option.inject stripPrefix_def)

lemma findSub_Some: "findSub p s = Some (a, r) \<Longrightarrow> s = a @ p @ r"
proof (induction s arbitrary: a)
  case Nil
  then show ?case by (simp split: if_splits)
next
  case (Cons c s)
  show ?case
  proof (cases "stripPrefix p (c # s)")
    case None
    with Cons.prems obtain a' where "findSub p s = Some (a', r)" "a = c # a'"
      by (auto split: option.splits)
    with Cons.IH show ?thesis by simp
  next
    case (Some r')
    with Cons.prems show ?thesis
      by (auto dest: stripPrefix_Some)
  qed
qed

lemma matchKey_Some:
  "matchKey r = Some (key, rest) \<Longrightarrow>
     r = key @ asc ''}}'' @ rest \<and> key \<noteq> [] \<and> of_char CHR ''}'' \<notin> set key"
proof -
  assume m: "matchKey r = Some (key, rest)"
  let ?p = "\<lambda>c::nat. c \<noteq> of_char CHR ''}''"
  from m have k: "key = takeWhile ?p r" and ne: "key \<noteq> []"
    and sp: "stripPrefix (asc ''}}'') (dropWhile ?p r) = Some rest"
    by (auto simp: matchKey_def Let_def split: if_splits option.splits)
  from sp have "dropWhile ?p r = asc ''}}'' @ rest"
    by (rule stripPrefix_Some)
  then have "r = key @ asc ''}}'' @ rest"
    using takeWhile_dropWhile_id [of ?p r] k by simp
  moreover have "of_char CHR ''}'' \<notin> set key"
    using k by (auto dest: set_takeWhileD)
  ultimately show ?thesis using ne by simp
qed

lemma matchConditional_Some:
  "matchConditional s = Some (key, content, rest) \<Longrightarrow>
     s = asc ''{{#'' @ key @ asc ''}}'' @ content @ asc ''{{/'' @ key @ asc ''}}'' @ rest"
  by (auto simp: matchConditional_def split: option.splits
           dest!: stripPrefix_Some matchKey_Some findSub_Some)

lemma matchConditional_shorter:
  "matchConditional s = Some (key, content, rest) \<Longrightarrow> length rest < length s"
  by (drule matchConditional_Some) simp

lemma matchPlaceholder_Some:
  "matchPlaceholder s = Some (key, rest) \<Longrightarrow>
     s = asc ''{{'' @ key @ asc ''}}'' @ rest \<and> key \<noteq> [] \<and> of_char CHR ''}'' \<notin> set key"
  by (auto simp: matchPlaceholder_def split: option.splits
           dest!: stripPrefix_Some matchKey_Some)

lemma matchPlaceholder_shorter:
  "matchPlaceholder s = Some (key, rest) \<Longrightarrow> length rest < length s"
  by (drule matchPlaceholder_Some) simp

section \<open>Rendering a template\<close>

text \<open>
  \<open>html.replace(re, callback)\<close> with a global regular expression: the matches are found
  from left to right, each search starting where the last match ended; a match is
  replaced by what the callback returns, the text between matches is copied, and the
  replacement is not searched again. An exception of the callback ends the whole call.
  \<^verbatim>\<open>
  html = html.replace(/\{\{#([^}]+)\}\}([\s\S]*?)\{\{\/\1\}\}/g, (_, key, content) => {
    const val = order[key.trim()];
    return (val && String(val).trim()) ? content : '';
  });
  \<close>
\<close>

definition conditionalValue :: "jsobject \<Rightarrow> jsstring \<Rightarrow> jsstring \<Rightarrow> error + jsstring" where
  "conditionalValue order key content =
     (let val = getProp order (trim key) in
      if truthyValue val
      then andThen (stringOfValue val) (\<lambda>s. Inr (if trim s \<noteq> [] then content else []))
      else Inr [])"

function replaceConditionals :: "jsobject \<Rightarrow> jsstring \<Rightarrow> error + jsstring" where
  "replaceConditionals order [] = Inr []"
| "replaceConditionals order (c # s) =
     (case matchConditional (c # s) of
        Some (key, content, rest) \<Rightarrow>
          andThen (conditionalValue order key content)
            (\<lambda>v. andThen (replaceConditionals order rest) (\<lambda>r. Inr (v @ r)))
      | None \<Rightarrow> andThen (replaceConditionals order s) (\<lambda>r. Inr (c # r)))"
  by pat_completeness auto
termination
  by (relation "measure (\<lambda>(order, s). length s)")
     (auto dest: matchConditional_shorter)

text \<open>
  \<^verbatim>\<open>
  html = html.replace(/\{\{([^}]+)\}\}/g, (_, key) => {
    const k = key.trim();
    if (k === 'LINE_ITEMS_TABLE') return buildLineItemsTable(order);
    if (k === 'PRINT_DATE')       return new Date().toLocaleDateString();
    return escHtml(String(order[k] ?? ''));
  });
  \<close>
  The two scripts differ in the \<open>buildLineItemsTable\<close> they call, so the table builder
  is the parameter \<open>table\<close>. \<open>new Date().toLocaleDateString()\<close> reads the clock and the
  locale: its result is the parameter \<open>today\<close>.
\<close>

definition placeholderValue ::
  "(jsobject \<Rightarrow> jsstring) \<Rightarrow> jsstring \<Rightarrow> jsobject \<Rightarrow> jsstring \<Rightarrow> error + jsstring" where
  "placeholderValue table today order key =
     (let k = trim key in
      if k = asc ''LINE_ITEMS_TABLE'' then Inr (table order)
      else if k = asc ''PRINT_DATE'' then Inr today
      else andThen (stringOfValue (nullish (getProp order k) (Some (Scalar (Str [])))))
             (\<lambda>s. Inr (escHtml (Some (Str s)))))"

function replacePlaceholders ::
  "(jsobject \<Rightarrow> jsstring) \<Rightarrow> jsstring \<Rightarrow> jsobject \<Rightarrow> jsstring \<Rightarrow> error + jsstring" where
  "replacePlaceholders table today order [] = Inr []"
| "replacePlaceholders table today order (c # s) =
     (case matchPlaceholder (c # s) of
        Some (key, rest) \<Rightarrow>
          andThen (placeholderValue table today order key)
            (\<lambda>v. andThen (replacePlaceholders table today order rest) (\<lambda>r. Inr (v @ r)))
      | None \<Rightarrow> andThen (replacePlaceholders table today order s) (\<lambda>r. Inr (c # r)))"
  by pat_completeness auto
termination
  by (relation "measure (\<lambda>(table, today, order, s). length s)")
     (auto dest: matchPlaceholder_shorter)

text \<open>
  Both \<open>renderOrderForPrint\<close> (app.js) and \<open>renderPreview\<close> (designer.js) start from the
  template in \<open>html\<close> and run the two replacements on it, one after the other:
  \<open>renderHtml\<close> is \<open>html\<close> after the second. \<open>renderOrderForPrint\<close> returns the markup of
  one order; \<open>template\<close> is what \<open>getTemplate()\<close> returned. \<open>renderPreview\<close> assigns its
  markup to \<open>previewInner.innerHTML\<close>; \<open>template\<close> is the editor's text and \<open>order\<close> the
  sample order.
\<close>

definition renderHtml ::
  "(jsobject \<Rightarrow> jsstring) \<Rightarrow> jsstring \<Rightarrow> jsobject \<Rightarrow> jsstring \<Rightarrow> error + jsstring" where
  "renderHtml table today order template =
     andThen (replaceConditionals order template) (replacePlaceholders table today order)"

definition renderOrderForPrint :: "jsstring \<Rightarrow> jsstring \<Rightarrow> jsobject \<Rightarrow> error + jsstring" where
  "renderOrderForPrint today template order =
     andThen (renderHtml buildLineItemsTable_app today order template)
       (\<lambda>html. Inr (asc ''<div class=\"print-order\">'' @ html @ asc ''</div>''))"

definition renderPreview :: "jsstring \<Rightarrow> jsstring \<Rightarrow> jsobject \<Rightarrow> error + jsstring" where
  "renderPreview today template order =
     andThen (renderHtml buildLineItemsTable_designer today order template)
       (\<lambda>html. Inr (asc ''<div class=\"print-order\" style=\"padding:0;\">'' @ html @ asc ''</div>''))"

text \<open>
  The trimmed keys of the placeholders that the second \<open>replace\<close> meets in a text, in the
  order it meets them: the same scan as \<open>replacePlaceholders\<close>, collecting \<open>key.trim()\<close>.
\<close>

function placeholderKeys :: "jsstring \<Rightarrow> jsstring list" where
  "placeholderKeys [] = []"
| "placeholderKeys (c # s) =
     (case matchPlaceholder (c # s) of
        Some (key, rest) \<Rightarrow> trim key # placeholderKeys rest
      | None \<Rightarrow> placeholderKeys s)"
  by pat_completeness auto
termination
  by (relation "measure length") (auto dest: matchPlaceholder_shorter)

section \<open>The field catalog\<close>

text \<open>
  \<^verbatim>\<open>
  const specialFields = [
    { key: 'LINE_ITEMS_TABLE', note: 'Renders a table of line items' },
    { key: 'PRINT_DATE',       note: 'Today\'s date at print time' }
  ];
  const orderFields = Object.keys(order)
    .filter(k => k !== 'Line Items')
    .map(k => ({ key: k, note: String(order[k] ?? '').slice(0, 40) }));
  const allFields = [...orderFields, ...specialFields];
  \<close>
  An entry is the pair of its key and its note. \<open>mapResult\<close> is \<open>Array.prototype.map\<close>
  with a callback that can throw.
\<close>

fun mapResult :: "('a \<Rightarrow> error + 'b) \<Rightarrow> 'a list \<Rightarrow> error + 'b list" where
  "mapResult f [] = Inr []"
| "mapResult f (x # xs) = andThen (f x) (\<lambda>y. andThen (mapResult f xs) (\<lambda>ys. Inr (y # ys)))"

definition specialFields :: "(jsstring \<times> jsstring) list" where
  "specialFields =
     [ (asc ''LINE_ITEMS_TABLE'', asc ''Renders a table of line items''),
       (asc ''PRINT_DATE'', asc ''Today's date at print time'') ]"

definition orderFields :: "jsobject \<Rightarrow> error + (jsstring \<times> jsstring) list" where
  "orderFields order =
     mapResult
       (\<lambda>k. andThen (stringOfValue (nullish (getProp order k) (Some (Scalar (Str [])))))
               (\<lambda>s. Inr (k, take 40 s)))
       (filter (\<lambda>k. k \<noteq> asc ''Line Items'') (map fst order))"

definition allFields :: "jsobject \<Rightarrow> error + (jsstring \<times> jsstring) list" where
  "allFields order = andThen (orderFields order) (\<lambda>fields. Inr (fields @ specialFields))"

section \<open>The default template\<close>

text \<open>
  The constant \<open>DEFAULT_TEMPLATE\<close> of designer.js and the one of app.js, each written
  out from its own script.
\<close>

definition DEFAULT_TEMPLATE_designer :: jsstring where
  "DEFAULT_TEMPLATE_designer =
     asc ''<!-- '' @ [9552, 9552, 9552] @ asc '' PACKING SLIP (top half) '' @ [9552, 9552, 9552] @ asc '' -->\<newline>''
     @ asc ''<div class=\"slip-half\">\<newline>''
     @ asc ''  <div class=\"slip-title\">Packing Slip</div>\<newline>''
     @ asc ''  <div class=\"slip-header\">\<newline>''
     @ asc ''    <div>\<newline>''
     @ asc ''      <div class=\"slip-order-id\">{{OrderID}}</div>\<newline>''
     @ asc ''      <h2 class=\"slip-customer\">{{Order Name}}</h2>\<newline>''
     @ asc ''    </div>\<newline>''
     @ asc ''    <span class=\"slip-count\">{{Order Count}}</span>\<newline>''
     @ asc ''  </div>\<newline>''
     @ asc ''  <div class=\"slip-meta\">\<newline>''
     @ asc ''    <div><strong>Due Date:</strong> {{Due Pickup Date}}</div>\<newline>''
     @ asc ''    <div><strong>Due Time:</strong> {{Due Pickup Time}}</div>\<newline>''
     @ asc ''    <div><strong>Number:</strong> {{PhoneNumber}}</div>\<newline>''
     @ asc ''  </div>\<newline>''
     @ asc ''  {{LINE_ITEMS_TABLE}}\<newline>''
     @ asc ''</div>\<newline>''
     @ asc ''\<newline>''
     @ asc ''<hr class=\"slip-divider\">\<newline>''
     @ asc ''\<newline>''
     @ asc ''<!-- '' @ [9552, 9552, 9552] @ asc '' BAKERY SHEET (bottom half) '' @ [9552, 9552, 9552] @ asc '' -->\<newline>''
     @ asc ''<div class=\"slip-half\">\<newline>''
     @ asc ''  <div class=\"slip-title\">Bakery Sheet</div>\<newline>''
     @ asc ''  <div class=\"slip-header\">\<newline>''
     @ asc ''    <div>\<newline>''
     @ asc ''      <div class=\"slip-order-id\">{{OrderID}}</div>\<newline>''
     @ asc ''      <h2 class=\"slip-customer\">{{Order Name}}</h2>\<newline>''
     @ asc ''    </div>\<newline>''
     @ asc ''    <span class=\"slip-count\">{{Order Count}}</span>\<newline>''
     @ asc ''  </div>\<newline>''
     @ asc ''  <div class=\"slip-meta\">\<newline>''
     @ asc ''    <div><strong>Due Date:</strong> {{Due Pickup Date}}</div>\<newline>''
     @ asc ''    <div><strong>Due Time:</strong> {{Due Pickup Time}}</div>\<newline>''
     @ asc ''    <div><strong>Number:</strong> {{PhoneNumber}}</div>\<newline>''
     @ asc ''  </div>\<newline>''
     @ asc ''  {{LINE_ITEMS_TABLE}}\<newline>''
     @ asc ''</div>''"

definition DEFAULT_TEMPLATE_app :: jsstring where
  "DEFAULT_TEMPLATE_app =
     asc ''<!-- '' @ [9552, 9552, 9552] @ asc '' PACKING SLIP (top half) '' @ [9552, 9552, 9552] @ asc '' -->\<newline>''
     @ asc ''<div class=\"slip-half\">\<newline>''
     @ asc ''  <div class=\"slip-title\">Packing Slip</div>\<newline>''
     @ asc ''  <div class=\"slip-header\">\<newline>''
     @ asc ''    <div>\<newline>''
     @ asc ''      <div class=\"slip-order-id\">{{OrderID}}</div>\<newline>''
     @ asc ''      <h2 class=\"slip-customer\">{{Order Name}}</h2>\<newline>''
     @ asc ''    </div>\<newline>''
     @ asc ''    <span class=\"slip-count\">{{Order Count}}</span>\<newline>''
     @ asc ''  </div>\<newline>''
     @ asc ''  <div class=\"slip-meta\">\<newline>''
     @ asc ''    <div><strong>Due Date:</strong> {{Due Pickup Date}}</div>\<newline>''
     @ asc ''    <div><strong>Due Time:</strong> {{Due Pickup Time}}</div>\<newline>''
     @ asc ''    <div><strong>Number:</strong> {{PhoneNumber}}</div>\<newline>''
     @ asc ''  </div>\<newline>''
     @ asc ''  {{LINE_ITEMS_TABLE}}\<newline>''
     @ asc ''</div>\<newline>''
     @ asc ''\<newline>''
     @ asc ''<hr class=\"slip-divider\">\<newline>''
     @ asc ''\<newline>''
     @ asc ''<!-- '' @ [9552, 9552, 9552] @ asc '' BAKERY SHEET (bottom half) '' @ [9552, 9552, 9552] @ asc '' -->\<newline>''
     @ asc ''<div class=\"slip-half\">\<newline>''
     @ asc ''  <div class=\"slip-title\">Bakery Sheet</div>\<newline>''
     @ asc ''  <div class=\"slip-header\">\<newline>''
     @ asc ''    <div>\<newline>''
     @ asc ''      <div class=\"slip-order-id\">{{OrderID}}</div>\<newline>''
     @ asc ''      <h2 class=\"slip-customer\">{{Order Name}}</h2>\<newline>''
     @ asc ''    </div>\<newline>''
     @ asc ''    <span class=\"slip-count\">{{Order Count}}</span>\<newline>''
     @ asc ''  </div>\<newline>''
     @ asc ''  <div class=\"slip-meta\">\<newline>''
     @ asc ''    <div><strong>Due Date:</strong> {{Due Pickup Date}}</div>\<newline>''
     @ asc ''    <div><strong>Due Time:</strong> {{Due Pickup Time}}</div>\<newline>''
     @ asc ''    <div><strong>Number:</strong> {{PhoneNumber}}</div>\<newline>''
     @ asc ''  </div>\<newline>''
     @ asc ''  {{LINE_ITEMS_TABLE}}\<newline>''
     @ asc ''</div>''"

section \<open>The statements of the specification\<close>

text \<open>
  The escaping rule in the words of the specification: each character is replaced on its
  own, \<open>&\<close> by \<open>&amp;\<close>, \<open><\<close> by \<open>&lt;\<close>, \<open>>\<close> by \<open>&gt;\<close>, the double quote by \<open>&quot;\<close>,
  and every other character stays.
\<close>

definition escape_char_spec :: "nat \<Rightarrow> jsstring" where
  "escape_char_spec c =
     (if c = of_char CHR ''&'' then asc ''&amp;''
      else if c = of_char CHR ''<'' then asc ''&lt;''
      else if c = of_char CHR ''>'' then asc ''&gt;''
      else if c = of_char CHR 0x22 then asc ''&quot;''
      else [c])"

definition escape_spec :: "jsstring \<Rightarrow> jsstring" where
  "escape_spec s = concat (map escape_char_spec s)"

text \<open>
  What a placeholder naming an order field stands for: nothing when \<open>order[k]\<close> is absent
  or \<open>null\<close>, the escaped display string of its value otherwise (an exception when the
  value has no display string).
\<close>

definition field_text_spec :: "jsobject \<Rightarrow> jsstring \<Rightarrow> error + jsstring" where
  "field_text_spec order k =
     (case getProp order k of
        None \<Rightarrow> Inr []
      | Some (Scalar Null) \<Rightarrow> Inr []
      | Some v \<Rightarrow> andThen (stringOfValue (Some v)) (\<lambda>s. Inr (escape_spec s)))"



text \<open>The markup around the rendered template, for printing and for the preview.\<close>

definition printed_spec :: "jsstring \<Rightarrow> jsstring" where
  "printed_spec html = asc ''<div class=\"print-order\">'' @ html @ asc ''</div>''"

definition previewed_spec :: "jsstring \<Rightarrow> jsstring" where
  "previewed_spec html = asc ''<div class=\"print-order\" style=\"padding:0;\">'' @ html @ asc ''</div>''"

text \<open>
  The display string of the first candidate key, in the order given, whose value is
  truthy (present, not \<open>null\<close>, not the empty string, not the number zero); the empty
  string when there is none.
\<close>

fun first_truthy_spec :: "item \<Rightarrow> jsstring list \<Rightarrow> jsstring" where
  "first_truthy_spec item [] = []"
| "first_truthy_spec item (k # ks) =
     (if truthy (getField item k) then toString (getField item k) else first_truthy_spec item ks)"

text \<open>The labelled sub-line of a sub-detail field: present when the value is truthy.\<close>

definition subLine_spec :: "item \<Rightarrow> jsstring \<times> jsstring \<Rightarrow> jsstring" where
  "subLine_spec item = (\<lambda>(k, label).
     if truthy (getField item k)
     then asc ''<div class=\"slip-sub\">'' @ label @ asc '': '' @ escape_spec (toString (getField item k))
          @ asc ''</div>''
     else [])"

text \<open>
  A table row: a \<open>tr\<close> element with the empty check cell, the detail cell and the
  quantity cell. The table: the heading and, in its body, the rows one after the other.
\<close>

definition row_spec :: "jsstring \<Rightarrow> jsstring \<Rightarrow> jsstring" where
  "row_spec detail qty =
     asc ''<tr>\<newline>      <td class=\"slip-check-cell\"></td>\<newline>      <td class=\"slip-detail-cell\">''
     @ detail
     @ asc ''</td>\<newline>      <td class=\"slip-qty-cell\">''
     @ qty
     @ asc ''</td>\<newline>    </tr>''"

definition table_spec :: "jsstring list \<Rightarrow> jsstring" where
  "table_spec rows =
     asc ''<table class=\"slip-items-table\">\<newline>    <thead>\<newline>      <tr>\<newline>''
     @ asc ''        <th class=\"slip-check-cell\"></th>\<newline>''
     @ asc ''        <th class=\"slip-detail-cell\">Order Details</th>\<newline>''
     @ asc ''        <th class=\"slip-qty-cell\">Qty</th>\<newline>''
     @ asc ''      </tr>\<newline>    </thead>\<newline>    <tbody>''
     @ concat rows
     @ asc ''</tbody>\<newline>  </table>''"

text \<open>
  The preview text of a field of the catalog: the first 40 code units of the display
  string of its value, nothing appended. (For \<open>null\<close>, which the data model of the
  specification does not have, the code shows the empty string.)
\<close>

definition display_spec :: "jsval \<Rightarrow> jsstring" where
  "display_spec v = (case stringOfValue (Some v) of Inr s \<Rightarrow> s | Inl e \<Rightarrow> [])"

definition preview_spec :: "jsval \<Rightarrow> jsstring" where
  "preview_spec v = take 40 (if v = Scalar Null then [] else display_spec v)"

section \<open>Properties of the JavaScript operations\<close>

lemma error_unique: "(e :: error) = TypeError"
  by (cases e) simp

lemma andThen_Inr_right [simp]: "andThen m Inr = m"
  by (cases m) simp_all

lemma andThen_assoc: "andThen (andThen m f) g = andThen m (\<lambda>x. andThen (f x) g)"
  by (cases m) simp_all


lemma join_Nil_concat: "join [] xs = concat xs"
proof (induction xs)
  case Nil
  show ?case by simp
next
  case (Cons x xs)
  then show ?case by (cases xs) simp_all
qed



lemma numberText_number [simp]: "isNumberText t \<Longrightarrow> numberText (number t) = t"
  by (simp add: number_inverse)





lemma mapResult_Inr:
  "(\<And>x. x \<in> set xs \<Longrightarrow> f x = Inr (g x)) \<Longrightarrow> mapResult f xs = Inr (map g xs)"
  by (induction xs) simp_all

lemma mapResult_Inl:
  "x \<in> set xs \<Longrightarrow> f x = Inl e \<Longrightarrow> mapResult f xs = Inl TypeError"
proof (induction xs)
  case Nil
  then show ?case by simp
next
  case (Cons y ys)
  show ?case
  proof (cases "f y")
    case (Inl e')
    then show ?thesis by (simp add: error_unique [of e'])
  next
    case (Inr z)
    with Cons have "mapResult f ys = Inl TypeError" by auto
    with Inr show ?thesis by simp
  qed
qed

lemma note_of_field:
  "andThen (stringOfValue (nullish (Some v) (Some (Scalar (Str []))))) (\<lambda>s. Inr (k, take 40 s))
     = (if stringOfValue (Some v) = Inl TypeError then Inl TypeError else Inr (k, preview_spec v))"
proof (cases v)
  case (Scalar x)
  then show ?thesis
    by (cases x) (simp_all add: preview_spec_def display_spec_def)
next
  case (Arr xs)
  then show ?thesis
    by (simp add: preview_spec_def display_spec_def)
qed (simp_all add: preview_spec_def display_spec_def)

section \<open>Properties of the escaper and of the rows\<close>

lemma escHtml_escape_spec: "escHtml v = escape_spec (toString v)"
proof -
  have "replaceChar 34 (asc ''&quot;'')
          (replaceChar 62 (asc ''&gt;'')
            (replaceChar 60 (asc ''&lt;'')
              (replaceChar 38 (asc ''&amp;'') s))) = escape_spec s" for s
    by (induction s) (simp_all add: escape_spec_def escape_char_spec_def replaceChar_def)
  then show ?thesis
    by (simp add: escHtml_def)
qed

lemma row_app_spec:
  "row_app item =
     row_spec
       (escape_spec (first_truthy_spec item [asc ''Product Description''])
        @ concat (map (subLine_spec item)
            [ (asc ''Writing Notes'', asc ''Writing''), (asc ''Color'', asc ''Color''),
              (asc ''Add-Ons'', asc ''Add-Ons''), (asc ''Line Item Notes'', asc ''Notes'') ]))
       (escape_spec (first_truthy_spec item [asc ''CakeQty'']))"
  by (simp add: row_app_def row_spec_def rowOpen_def rowMid_def rowClose_def product_app_def
        qty_app_def subLines_app_def subLine_spec_def lor_def escHtml_escape_spec escape_spec_def)

lemma row_designer_spec:
  "row_designer item =
     row_spec
       (escape_spec (first_truthy_spec item
          [asc ''Product Name'', asc ''Product'', asc ''Item'', asc ''Order Details'', asc ''Description'']))
       (escape_spec (first_truthy_spec item [asc ''Qty'', asc ''Quantity'', asc ''QTY'']))"
  by (simp add: row_designer_def row_spec_def rowOpen_def rowMid_def rowClose_def product_designer_def
        qty_designer_def lor_def escHtml_escape_spec escape_spec_def)

section \<open>Properties of the two scans\<close>

lemma matchKey_intro:
  assumes "key \<noteq> []" and "of_char CHR ''}'' \<notin> set key"
  shows "matchKey (key @ asc ''}}'' @ rest) = Some (key, rest)"
proof -
  let ?p = "\<lambda>c::nat. c \<noteq> of_char CHR ''}''"
  have all: "\<And>x. x \<in> set key \<Longrightarrow> ?p x"
    using assms(2) by auto
  have "takeWhile ?p (key @ asc ''}}'' @ rest) = key"
    using all by (simp add: takeWhile_append2)
  moreover have "dropWhile ?p (key @ asc ''}}'' @ rest) = asc ''}}'' @ rest"
    using all by (simp add: dropWhile_append2)
  ultimately show ?thesis
    using assms(1) by (simp add: matchKey_def stripPrefix_def)
qed

lemma matchPlaceholder_intro:
  assumes "key \<noteq> []" and "of_char CHR ''}'' \<notin> set key"
  shows "matchPlaceholder (asc ''{{'' @ key @ asc ''}}'' @ rest) = Some (key, rest)"
  using matchKey_intro [OF assms, of rest]
  by (simp add: matchPlaceholder_def stripPrefix_def)


lemma replacePlaceholders_skip:
  "\<forall>i < length pre. matchPlaceholder (drop i (pre @ s)) = None \<Longrightarrow>
     replacePlaceholders table today order (pre @ s)
       = andThen (replacePlaceholders table today order s) (\<lambda>r. Inr (pre @ r))"
proof (induction pre)
  case Nil
  show ?case by simp
next
  case (Cons c pre)
  from Cons.prems have here: "matchPlaceholder (c # pre @ s) = None"
    by (metis append_Cons drop0 length_greater_0_conv list.distinct(1))
  have "\<forall>i < length pre. matchPlaceholder (drop i (pre @ s)) = None"
  proof (intro allI impI)
    fix i assume "i < length pre"
    then have "Suc i < length (c # pre)" by simp
    with Cons.prems have "matchPlaceholder (drop (Suc i) ((c # pre) @ s)) = None" by blast
    then show "matchPlaceholder (drop i (pre @ s)) = None" by simp
  qed
  with Cons.IH here show ?case by (simp add: andThen_assoc)
qed


lemma replacePlaceholders_match:
  "matchPlaceholder s = Some (key, rest) \<Longrightarrow>
     replacePlaceholders table today order s
       = andThen (placeholderValue table today order key)
           (\<lambda>v. andThen (replacePlaceholders table today order rest) (\<lambda>r. Inr (v @ r)))"
  by (cases s) (simp_all add: matchPlaceholder_def stripPrefix_def)


lemma placeholderValue_field:
  assumes "trim key \<noteq> asc ''LINE_ITEMS_TABLE''" and "trim key \<noteq> asc ''PRINT_DATE''"
  shows "placeholderValue table today order key = field_text_spec order (trim key)"
proof -
  have "andThen (stringOfValue (nullish v (Some (Scalar (Str []))))) (\<lambda>s. Inr (escHtml (Some (Str s))))
        = (case v of
             None \<Rightarrow> Inr []
           | Some (Scalar Null) \<Rightarrow> Inr []
           | Some w \<Rightarrow> andThen (stringOfValue (Some w)) (\<lambda>s. Inr (escape_spec s)))" for v
  proof (cases v)
    case None
    then show ?thesis by (simp add: escHtml_escape_spec escape_spec_def)
  next
    case (Some w)
    show ?thesis
    proof (cases w)
      case (Scalar x)
      with Some show ?thesis
        by (cases x) (simp_all add: escHtml_escape_spec escape_spec_def)
    qed (simp_all add: Some escHtml_escape_spec)
  qed
  then show ?thesis
    using assms by (simp add: placeholderValue_def field_text_spec_def Let_def)
qed







lemma renderHtml_placeholder:
  assumes "key \<noteq> []" and "of_char CHR ''}'' \<notin> set key"
    and "trim key \<noteq> asc ''LINE_ITEMS_TABLE''" and "trim key \<noteq> asc ''PRINT_DATE''"
    and "replaceConditionals order template = Inr (pre @ asc ''{{'' @ key @ asc ''}}'' @ rest)"
    and "\<forall>i < length pre. matchPlaceholder (drop i (pre @ asc ''{{'' @ key @ asc ''}}'' @ rest)) = None"
  shows "renderHtml table today order template
           = andThen (field_text_spec order (trim key))
               (\<lambda>v. andThen (replacePlaceholders table today order rest) (\<lambda>r. Inr (pre @ v @ r)))"
proof -
  have "renderHtml table today order template
          = replacePlaceholders table today order (pre @ asc ''{{'' @ key @ asc ''}}'' @ rest)"
    by (simp add: renderHtml_def assms(5))
  also have "\<dots> = andThen (replacePlaceholders table today order (asc ''{{'' @ key @ asc ''}}'' @ rest))
                      (\<lambda>r. Inr (pre @ r))"
    using assms(6) by (rule replacePlaceholders_skip)
  also have "replacePlaceholders table today order (asc ''{{'' @ key @ asc ''}}'' @ rest)
          = andThen (placeholderValue table today order key)
              (\<lambda>v. andThen (replacePlaceholders table today order rest) (\<lambda>r. Inr (v @ r)))"
    using matchPlaceholder_intro [OF assms(1,2)] by (rule replacePlaceholders_match)
  finally show ?thesis
    using placeholderValue_field [OF assms(3,4)] by (simp add: andThen_assoc)
qed



lemma replacePlaceholders_today:
  "asc ''PRINT_DATE'' \<notin> set (placeholderKeys s) \<Longrightarrow>
     replacePlaceholders table d1 order s = replacePlaceholders table d2 order s"
proof (induction "length s" arbitrary: s rule: less_induct)
  case less
  show ?case
  proof (cases s)
    case Nil
    then show ?thesis by simp
  next
    case (Cons c s')
    show ?thesis
    proof (cases "matchPlaceholder (c # s')")
      case None
      with less.prems Cons have "asc ''PRINT_DATE'' \<notin> set (placeholderKeys s')" by simp
      then have "replacePlaceholders table d1 order s' = replacePlaceholders table d2 order s'"
        using less.hyps [of s'] Cons by simp
      with None Cons show ?thesis by simp
    next
      case (Some m)
      obtain key rest where m: "m = (key, rest)" by (cases m)
      from less.prems Cons Some m have k: "trim key \<noteq> asc ''PRINT_DATE''"
        and r: "asc ''PRINT_DATE'' \<notin> set (placeholderKeys rest)"
        by auto
      from k have "placeholderValue table d1 order key = placeholderValue table d2 order key"
        by (simp add: placeholderValue_def Let_def)
      moreover have "length rest < length s"
        using Some m Cons matchPlaceholder_shorter by blast
      then have "replacePlaceholders table d1 order rest = replacePlaceholders table d2 order rest"
        using less.hyps [of rest] r by simp
      ultimately show ?thesis
        using Some m Cons by simp
    qed
  qed
qed

section \<open>The claims\<close>

subsection \<open>C1: conditional blocks\<close>




subsection \<open>C2: placeholders of order fields\<close>

text \<open>
  Claim C2, as the code has it. Take a template whose text after the first \<open>replace\<close>
  has a placeholder \<open>{{KEY}}\<close> that is the next one the left-to-right scan of the second
  \<open>replace\<close> finds (no match of the placeholder pattern starts in the text \<open>pre\<close> before
  it; \<open>KEY\<close> is not empty and has no \<open>}\<close>), with a trimmed key that is neither
  \<open>LINE_ITEMS_TABLE\<close> nor \<open>PRINT_DATE\<close>. Then both renderings copy \<open>pre\<close> and replace the
  placeholder by the escaped display string of \<open>order[KEY.trim()]\<close> when that property is
  there and not \<open>null\<close>, be it a field of the order or a member inherited from
  \<open>Object.prototype\<close>, and by the empty string when there is no such property or it is
  \<open>null\<close>; the escape replaces \<open>&\<close>, \<open><\<close>, \<open>>\<close> and the double quote character by
  character (\<open>escape_spec\<close>), which is what the four replacements of \<open>escHtml\<close> in their
  order, \<open>&\<close> first, compute. An unknown key raises nothing; a TypeError arises only from
  a value that has no display string, a list with an item that has a field named
  \<open>toString\<close>. The scan then goes on with the text after the placeholder.
\<close>

theorem placeholder_substituted:
  assumes "key \<noteq> []" and "of_char CHR ''}'' \<notin> set key"
    and "trim key \<noteq> asc ''LINE_ITEMS_TABLE''" and "trim key \<noteq> asc ''PRINT_DATE''"
    and "replaceConditionals order template = Inr (pre @ asc ''{{'' @ key @ asc ''}}'' @ rest)"
    and "\<forall>i < length pre. matchPlaceholder (drop i (pre @ asc ''{{'' @ key @ asc ''}}'' @ rest)) = None"
  shows "renderOrderForPrint today template order
           = andThen (field_text_spec order (trim key))
               (\<lambda>v. andThen (replacePlaceholders buildLineItemsTable_app today order rest)
                  (\<lambda>r. Inr (printed_spec (pre @ v @ r))))
         \<and> renderPreview today template order
           = andThen (field_text_spec order (trim key))
               (\<lambda>v. andThen (replacePlaceholders buildLineItemsTable_designer today order rest)
                  (\<lambda>r. Inr (previewed_spec (pre @ v @ r))))"
  by (simp add: renderOrderForPrint_def renderPreview_def renderHtml_placeholder [OF assms]
        andThen_assoc printed_spec_def previewed_spec_def del: of_char_Char)

text \<open>
  The theorem on a template whose block holds a field to escape, followed by a \<open>null\<close>
  field and an absent one.
\<close>

theorem placeholder_substituted_witness:
  "renderOrderForPrint (asc ''1/2/2026'') (asc ''{{#Paid}}Hi {{ Name }}{{Gone}}{{Missing}}!{{/Paid}}'')
      [(asc ''Name'', Scalar (Str (asc ''<b>&\"x\"</b>''))), (asc ''Gone'', Scalar Null),
       (asc ''Paid'', Scalar (Num (number (asc ''9.5''))))]
     = Inr (asc ''<div class=\"print-order\">Hi &lt;b&gt;&amp;&quot;x&quot;&lt;/b&gt;!</div>'')"
  using placeholder_substituted
      [of "asc '' Name ''"
          "[(asc ''Name'', Scalar (Str (asc ''<b>&\"x\"</b>''))), (asc ''Gone'', Scalar Null),
            (asc ''Paid'', Scalar (Num (number (asc ''9.5''))))]"
          "asc ''{{#Paid}}Hi {{ Name }}{{Gone}}{{Missing}}!{{/Paid}}''"
          "asc ''Hi ''" "asc ''{{Gone}}{{Missing}}!''" "asc ''1/2/2026''"]
  by (simp add: All_less_Suc matchConditional_def matchPlaceholder_def matchKey_def stripPrefix_def
        conditionalValue_def placeholderValue_def trim_def isWhiteSpace_def
        field_text_spec_def getProp_def inherited_def escape_spec_def escape_char_spec_def
        escHtml_def replaceChar_def printed_spec_def
        numberTruthy_def isNumberText_def isDecimalText_def isDigit_def)

text \<open>
  The claim as the specification words it fails for a key that names a member of
  \<open>Object.prototype\<close>: the empty order has no field \<open>constructor\<close>, yet \<open>{{constructor}}\<close>
  is not replaced by the empty string but by the text of the function \<open>Object\<close>.
\<close>

theorem inherited_member_counterexample:
  "map_of ([] :: jsobject) (asc ''constructor'') = None
   \<and> renderOrderForPrint (asc ''1/2/2026'') (asc ''{{constructor}}'') []
     = Inr (asc ''<div class=\"print-order\">function Object() { [native code] }</div>'')
   \<and> renderPreview (asc ''1/2/2026'') (asc ''{{constructor}}'') []
     = Inr (asc ''<div class=\"print-order\" style=\"padding:0;\">function Object() { [native code] }</div>'')"
  by (simp add: renderOrderForPrint_def renderPreview_def renderHtml_def matchConditional_def
        matchPlaceholder_def matchKey_def stripPrefix_def placeholderValue_def trim_def
        isWhiteSpace_def getProp_def inherited_def escHtml_def replaceChar_def)

subsection \<open>C3: malformed templates\<close>




subsection \<open>C4: the rows of the line-items table\<close>

text \<open>
  Claim C4. Each of the two table builders returns the fixed \<open>No line items.\<close> paragraph
  exactly when \<open>order['Line Items']\<close> is absent, is not a list, or is the empty list. For a
  list that is not empty it returns the table whose body holds one row per item, in the
  order of the list, nothing dropped, sorted or merged: the row of an item is the \<open>tr\<close>
  element with the empty check cell, the detail cell (the escaped product text, followed
  in the printing script by the sub-lines) and the quantity cell of that item.
\<close>

theorem buildLineItemsTable_rows:
  "(buildLineItemsTable_app order
      = asc ''<p style=\"color:#666;font-style:italic;font-size:10pt;\">No line items.</p>'')
     = (getProp order (asc ''Line Items'') = None \<or> \<not> isArray (getProp order (asc ''Line Items''))
        \<or> getProp order (asc ''Line Items'') = Some (Arr []))
   \<and> (buildLineItemsTable_designer order
      = asc ''<p style=\"color:#666;font-style:italic;font-size:10pt;\">No line items.</p>'')
     = (getProp order (asc ''Line Items'') = None \<or> \<not> isArray (getProp order (asc ''Line Items''))
        \<or> getProp order (asc ''Line Items'') = Some (Arr []))
   \<and> (getProp order (asc ''Line Items'') = Some (Arr (x # xs)) \<longrightarrow>
        buildLineItemsTable_app order
          = table_spec (map (\<lambda>item. row_spec
              (escape_spec (first_truthy_spec item [asc ''Product Description''])
               @ concat (map (subLine_spec item)
                   [ (asc ''Writing Notes'', asc ''Writing''), (asc ''Color'', asc ''Color''),
                     (asc ''Add-Ons'', asc ''Add-Ons''), (asc ''Line Item Notes'', asc ''Notes'') ]))
              (escape_spec (first_truthy_spec item [asc ''CakeQty'']))) (x # xs))
        \<and> buildLineItemsTable_designer order
          = table_spec (map (\<lambda>item. row_spec
              (escape_spec (first_truthy_spec item
                 [asc ''Product Name'', asc ''Product'', asc ''Item'', asc ''Order Details'',
                  asc ''Description'']))
              (escape_spec (first_truthy_spec item [asc ''Qty'', asc ''Quantity'', asc ''QTY'']))) (x # xs)))"
proof -
  have ne: "tableOpen @ r \<noteq> noLineItems" for r
    by (simp add: tableOpen_def noLineItems_def)
  have msg: "noLineItems = asc ''<p style=\"color:#666;font-style:italic;font-size:10pt;\">No line items.</p>''"
    by (simp add: noLineItems_def)
  have tab: "tableOpen @ concat rows @ tableClose = table_spec rows" for rows
    by (simp add: tableOpen_def tableClose_def table_spec_def)
  have app: "map row_app ys = map (\<lambda>item. row_spec
              (escape_spec (first_truthy_spec item [asc ''Product Description''])
               @ concat (map (subLine_spec item)
                   [ (asc ''Writing Notes'', asc ''Writing''), (asc ''Color'', asc ''Color''),
                     (asc ''Add-Ons'', asc ''Add-Ons''), (asc ''Line Item Notes'', asc ''Notes'') ]))
              (escape_spec (first_truthy_spec item [asc ''CakeQty'']))) ys" for ys
    by (rule map_cong) (simp_all only: row_app_spec)
  have des: "map row_designer ys = map (\<lambda>item. row_spec
              (escape_spec (first_truthy_spec item
                 [asc ''Product Name'', asc ''Product'', asc ''Item'', asc ''Order Details'',
                  asc ''Description'']))
              (escape_spec (first_truthy_spec item [asc ''Qty'', asc ''Quantity'', asc ''QTY'']))) ys" for ys
    by (rule map_cong) (simp_all only: row_designer_spec)
  show ?thesis
  proof (cases "getProp order (asc ''Line Items'')")
    case None
    then show ?thesis
      unfolding msg [symmetric]
      by (simp add: buildLineItemsTable_app_def buildLineItemsTable_designer_def)
  next
    case (Some v)
    show ?thesis
    proof (cases v)
      case (Arr ys)
      show ?thesis
      proof (cases ys)
        case Nil
        with Some Arr show ?thesis
          unfolding msg [symmetric]
          by (simp add: buildLineItemsTable_app_def buildLineItemsTable_designer_def)
      next
        case (Cons y ys')
        have a: "buildLineItemsTable_app order = tableOpen @ concat (map row_app ys) @ tableClose"
          and d: "buildLineItemsTable_designer order = tableOpen @ concat (map row_designer ys) @ tableClose"
          using Some Arr Cons
          by (simp_all add: buildLineItemsTable_app_def buildLineItemsTable_designer_def join_Nil_concat)
        have "buildLineItemsTable_app order \<noteq> noLineItems"
          and "buildLineItemsTable_designer order \<noteq> noLineItems"
          unfolding a d by (rule ne)+
        moreover note a [unfolded app tab] d [unfolded des tab]
        ultimately show ?thesis
          unfolding msg [symmetric] using Some Arr Cons by simp
      qed
    next
      case (Scalar z)
      with Some show ?thesis
        unfolding msg [symmetric]
        by (simp add: buildLineItemsTable_app_def buildLineItemsTable_designer_def)
    next
      case (Native f)
      with Some show ?thesis
        unfolding msg [symmetric]
        by (simp add: buildLineItemsTable_app_def buildLineItemsTable_designer_def)
    next
      case ProtoObject
      with Some show ?thesis
        unfolding msg [symmetric]
        by (simp add: buildLineItemsTable_app_def buildLineItemsTable_designer_def)
    qed
  qed
qed

text \<open>
  The theorem, for each builder, on an order with three line items, the first and the
  last equal and the list not sorted; and on the empty order, an order with an empty list
  and an order whose \<open>Line Items\<close> is a string.
\<close>

theorem buildLineItemsTable_rows_witness:
  "buildLineItemsTable_app
      [(asc ''Line Items'', Arr [ [(asc ''Product Description'', Str (asc ''Pie'')), (asc ''CakeQty'', Num (number (asc ''2'')))],
                                 [(asc ''Product Description'', Str (asc ''Cake'')), (asc ''CakeQty'', Num (number (asc ''1'')))],
                                 [(asc ''Product Description'', Str (asc ''Pie'')), (asc ''CakeQty'', Num (number (asc ''2'')))] ])]
     = table_spec [row_spec (asc ''Pie'') (asc ''2''), row_spec (asc ''Cake'') (asc ''1''),
                   row_spec (asc ''Pie'') (asc ''2'')]
   \<and> buildLineItemsTable_designer
      [(asc ''Line Items'', Arr [ [(asc ''Product'', Str (asc ''Pie'')), (asc ''Qty'', Num (number (asc ''2'')))],
                                 [(asc ''Product'', Str (asc ''Cake'')), (asc ''Qty'', Num (number (asc ''1'')))],
                                 [(asc ''Product'', Str (asc ''Pie'')), (asc ''Qty'', Num (number (asc ''2'')))] ])]
     = table_spec [row_spec (asc ''Pie'') (asc ''2''), row_spec (asc ''Cake'') (asc ''1''),
                   row_spec (asc ''Pie'') (asc ''2'')]
   \<and> buildLineItemsTable_app []
     = asc ''<p style=\"color:#666;font-style:italic;font-size:10pt;\">No line items.</p>''
   \<and> buildLineItemsTable_designer [(asc ''Line Items'', Arr [])]
     = asc ''<p style=\"color:#666;font-style:italic;font-size:10pt;\">No line items.</p>''
   \<and> buildLineItemsTable_app [(asc ''Line Items'', Scalar (Str (asc ''none'')))]
     = asc ''<p style=\"color:#666;font-style:italic;font-size:10pt;\">No line items.</p>''"
  using buildLineItemsTable_rows
      [of "[(asc ''Line Items'', Arr [ [(asc ''Product Description'', Str (asc ''Pie'')), (asc ''CakeQty'', Num (number (asc ''2'')))],
                                 [(asc ''Product Description'', Str (asc ''Cake'')), (asc ''CakeQty'', Num (number (asc ''1'')))],
                                 [(asc ''Product Description'', Str (asc ''Pie'')), (asc ''CakeQty'', Num (number (asc ''2'')))] ])]"
          "[(asc ''Product Description'', Str (asc ''Pie'')), (asc ''CakeQty'', Num (number (asc ''2'')))]"
          "[ [(asc ''Product Description'', Str (asc ''Cake'')), (asc ''CakeQty'', Num (number (asc ''1'')))],
             [(asc ''Product Description'', Str (asc ''Pie'')), (asc ''CakeQty'', Num (number (asc ''2'')))] ]"]
    buildLineItemsTable_rows
      [of "[(asc ''Line Items'', Arr [ [(asc ''Product'', Str (asc ''Pie'')), (asc ''Qty'', Num (number (asc ''2'')))],
                                 [(asc ''Product'', Str (asc ''Cake'')), (asc ''Qty'', Num (number (asc ''1'')))],
                                 [(asc ''Product'', Str (asc ''Pie'')), (asc ''Qty'', Num (number (asc ''2'')))] ])]"
          "[(asc ''Product'', Str (asc ''Pie'')), (asc ''Qty'', Num (number (asc ''2'')))]"
          "[ [(asc ''Product'', Str (asc ''Cake'')), (asc ''Qty'', Num (number (asc ''1'')))],
             [(asc ''Product'', Str (asc ''Pie'')), (asc ''Qty'', Num (number (asc ''2'')))] ]"]
    buildLineItemsTable_rows [of "[]"]
    buildLineItemsTable_rows [of "[(asc ''Line Items'', Arr [])]"]
    buildLineItemsTable_rows [of "[(asc ''Line Items'', Scalar (Str (asc ''none'')))]"]
  by (simp add: getProp_def inherited_def getField_def subLine_spec_def escape_spec_def
        escape_char_spec_def numberTruthy_def isNumberText_def isDecimalText_def isDigit_def)

subsection \<open>C5: product and quantity of a line item\<close>

text \<open>
  Claim C5, as the code has it. The product text of a row is the escaped display string
  of the first truthy value (present, not \<open>null\<close>, not the empty string, not the number
  zero) among \<open>Product Name\<close>, \<open>Product\<close>, \<open>Item\<close>, \<open>Order Details\<close>, \<open>Description\<close> in the
  designer's preview and of \<open>Product Description\<close> in the printing script; the quantity is
  likewise the first truthy value among \<open>Qty\<close>, \<open>Quantity\<close>, \<open>QTY\<close> in the preview and of
  \<open>CakeQty\<close> in the printing script; when no candidate is truthy the cell is empty.
\<close>

theorem line_item_product_and_quantity:
  "row_designer item =
     rowOpen
     @ escape_spec (first_truthy_spec item
         [asc ''Product Name'', asc ''Product'', asc ''Item'', asc ''Order Details'', asc ''Description''])
     @ rowMid
     @ escape_spec (first_truthy_spec item [asc ''Qty'', asc ''Quantity'', asc ''QTY''])
     @ rowClose
   \<and> product_app item = escape_spec (first_truthy_spec item [asc ''Product Description''])
   \<and> qty_app item = escape_spec (first_truthy_spec item [asc ''CakeQty''])"
  by (simp add: row_designer_def product_designer_def qty_designer_def product_app_def qty_app_def
        lor_def escHtml_escape_spec del: of_char_Char)

text \<open>The theorem on a preview item whose first quantity is \<open>null\<close>, and on a print item.\<close>

theorem line_item_product_and_quantity_witness:
  "row_designer [(asc ''Item'', Str (asc ''Pie'')), (asc ''Qty'', Null), (asc ''QTY'', Num (number (asc ''3'')))]
     = rowOpen @ asc ''Pie'' @ rowMid @ asc ''3'' @ rowClose
   \<and> product_app [(asc ''Product Description'', Str (asc ''Cake''))] = asc ''Cake''
   \<and> qty_app [(asc ''Product Description'', Str (asc ''Cake''))] = []"
  using line_item_product_and_quantity
      [of "[(asc ''Item'', Str (asc ''Pie'')), (asc ''Qty'', Null), (asc ''QTY'', Num (number (asc ''3'')))]"]
    line_item_product_and_quantity [of "[(asc ''Product Description'', Str (asc ''Cake''))]"]
  by (simp add: getField_def escape_spec_def escape_char_spec_def numberTruthy_def isNumberText_def
        isDecimalText_def isDigit_def)

text \<open>
  The claim as the specification words it fails for the quantity zero: \<open>CakeQty\<close> is
  present and its display string \<open>0\<close> is not empty, yet the quantity cell is empty; in the
  preview a \<open>Qty\<close> of zero is passed over for the \<open>Quantity\<close> that follows.
\<close>

theorem quantity_zero_counterexample:
  "getField [(asc ''Product Description'', Str (asc ''Cake'')), (asc ''CakeQty'', Num (number (asc ''0'')))]
      (asc ''CakeQty'')
     = Some (Num (number (asc ''0'')))
   \<and> toString (Some (Num (number (asc ''0'')))) = asc ''0''
   \<and> row_app [(asc ''Product Description'', Str (asc ''Cake'')), (asc ''CakeQty'', Num (number (asc ''0'')))]
     = rowOpen @ asc ''Cake'' @ rowMid @ [] @ rowClose
   \<and> toString (qty_designer [(asc ''Qty'', Num (number (asc ''0''))), (asc ''Quantity'', Num (number (asc ''5'')))])
     = asc ''5''"
  by (simp add: getField_def row_app_def product_app_def subLines_app_def qty_app_def qty_designer_def
        lor_def escHtml_def replaceChar_def numberTruthy_def isNumberText_def isDecimalText_def isDigit_def)

subsection \<open>C6: the sub-lines of the detail cell\<close>

text \<open>
  Claim C6, as the code has it. In the printing script the detail cell of a row holds,
  after the product text, one sub-line for each of the four fields \<open>Writing Notes\<close>,
  \<open>Color\<close>, \<open>Add-Ons\<close>, \<open>Line Item Notes\<close>, in that order, whose value is truthy: the label
  (\<open>Writing\<close>, \<open>Color\<close>, \<open>Add-Ons\<close>, \<open>Notes\<close>), a colon and the escaped value, in a
  \<open>div\<close> of class \<open>slip-sub\<close>; a field whose value is absent, \<open>null\<close>, empty or zero gives
  no sub-line. There is no sub-line for \<open>Flavor\<close>. In the designer's preview the detail
  cell holds the product text only.
\<close>

theorem line_item_sub_lines:
  "row_app item =
     rowOpen
     @ escape_spec (first_truthy_spec item [asc ''Product Description''])
     @ concat (map (subLine_spec item)
         [ (asc ''Writing Notes'', asc ''Writing''), (asc ''Color'', asc ''Color''),
           (asc ''Add-Ons'', asc ''Add-Ons''), (asc ''Line Item Notes'', asc ''Notes'') ])
     @ rowMid
     @ escape_spec (first_truthy_spec item [asc ''CakeQty''])
     @ rowClose
   \<and> row_designer item =
     rowOpen @ escape_spec (toString (product_designer item))
     @ rowMid @ escape_spec (toString (qty_designer item)) @ rowClose"
  by (simp add: row_app_def row_designer_def product_app_def qty_app_def subLines_app_def
        subLine_spec_def lor_def escHtml_escape_spec del: of_char_Char)

text \<open>The theorem on an item with a color to escape and an empty add-on.\<close>

theorem line_item_sub_lines_witness:
  "row_app [(asc ''Product Description'', Str (asc ''Cake'')), (asc ''Color'', Str (asc ''Red & blue'')),
            (asc ''Add-Ons'', Str []), (asc ''CakeQty'', Num (number (asc ''2'')))]
     = rowOpen @ asc ''Cake'' @ asc ''<div class=\"slip-sub\">Color: Red &amp; blue</div>''
       @ rowMid @ asc ''2'' @ rowClose"
  using line_item_sub_lines
      [of "[(asc ''Product Description'', Str (asc ''Cake'')), (asc ''Color'', Str (asc ''Red & blue'')),
            (asc ''Add-Ons'', Str []), (asc ''CakeQty'', Num (number (asc ''2'')))]"]
  by (simp add: getField_def subLine_spec_def escape_spec_def escape_char_spec_def numberTruthy_def
        isNumberText_def isDecimalText_def isDigit_def)

text \<open>
  The claim as the specification words it fails for the flavor, which the table builder of
  the printing script does not show, and for every sub-detail in the designer's preview.
\<close>

theorem flavor_sub_line_counterexample:
  "truthy (getField [(asc ''Product Description'', Str (asc ''Cake'')), (asc ''Flavor'', Str (asc ''Vanilla''))]
             (asc ''Flavor''))
   \<and> row_app [(asc ''Product Description'', Str (asc ''Cake'')), (asc ''Flavor'', Str (asc ''Vanilla''))]
     = rowOpen @ asc ''Cake'' @ rowMid @ rowClose
   \<and> row_designer [(asc ''Product'', Str (asc ''Cake'')), (asc ''Color'', Str (asc ''Red''))]
     = rowOpen @ asc ''Cake'' @ rowMid @ rowClose"
  by (simp add: getField_def row_app_def row_designer_def product_app_def product_designer_def
        qty_designer_def subLines_app_def qty_app_def lor_def escHtml_def replaceChar_def)

subsection \<open>C7: the date is the only outside input\<close>

text \<open>
  Claim C7, as the code has it. Rendering is a function of the template, the order and
  the date string that \<open>new Date().toLocaleDateString()\<close> returns; it updates nothing, the
  order included. When the template, after its conditional blocks are resolved against the
  order, has no placeholder whose trimmed key is \<open>PRINT_DATE\<close>, the outcome does not depend
  on the date: two renderings of the same template and order are equal whatever the
  dates.
\<close>

theorem render_date_independent:
  assumes "\<forall>h. replaceConditionals order template = Inr h
             \<longrightarrow> asc ''PRINT_DATE'' \<notin> set (placeholderKeys h)"
  shows "renderOrderForPrint d1 template order = renderOrderForPrint d2 template order
         \<and> renderPreview d1 template order = renderPreview d2 template order"
proof (cases "replaceConditionals order template")
  case (Inl e)
  then show ?thesis
    by (simp add: renderOrderForPrint_def renderPreview_def renderHtml_def)
next
  case (Inr h)
  with assms have "asc ''PRINT_DATE'' \<notin> set (placeholderKeys h)" by simp
  then have "replacePlaceholders table d1 order h = replacePlaceholders table d2 order h" for table
    by (rule replacePlaceholders_today)
  with Inr show ?thesis
    by (simp add: renderOrderForPrint_def renderPreview_def renderHtml_def)
qed

text \<open>
  The theorem on a template whose only print-date placeholder stands in a block that
  the order drops.
\<close>

theorem render_date_independent_witness:
  "renderOrderForPrint (asc ''1/2/2026'') (asc ''{{#A}}{{PRINT_DATE}}{{/A}}{{B}}'')
      [(asc ''B'', Scalar (Num (number (asc ''7''))))]
     = renderOrderForPrint (asc ''12/31/2026'') (asc ''{{#A}}{{PRINT_DATE}}{{/A}}{{B}}'')
         [(asc ''B'', Scalar (Num (number (asc ''7''))))]"
  using render_date_independent
      [of "[(asc ''B'', Scalar (Num (number (asc ''7''))))]" "asc ''{{#A}}{{PRINT_DATE}}{{/A}}{{B}}''"
          "asc ''1/2/2026''" "asc ''12/31/2026''"]
  by (simp add: renderOrderForPrint_def renderPreview_def renderHtml_def matchConditional_def
        matchPlaceholder_def matchKey_def stripPrefix_def conditionalValue_def placeholderValue_def
        trim_def isWhiteSpace_def getProp_def inherited_def escHtml_def replaceChar_def
        numberTruthy_def isNumberText_def isDecimalText_def isDigit_def hasOwn_def)

text \<open>
  The claim as the specification words it, with the condition on the template itself,
  fails: this template holds no placeholder with the key \<open>PRINT_DATE\<close> and not even the
  word, but the first \<open>replace\<close> removes the empty block between \<open>PRINT_\<close> and \<open>DATE\<close>, and
  the second then finds \<open>{{PRINT_DATE}}\<close>. The output changes with the date.
\<close>

theorem print_date_assembled_counterexample:
  "placeholderKeys (asc ''{{PRINT_{{#A}}{{/A}}DATE}}'') = [asc ''PRINT_{{#A'', asc ''/A'']
   \<and> findSub (asc ''PRINT_DATE'') (asc ''{{PRINT_{{#A}}{{/A}}DATE}}'') = None
   \<and> renderOrderForPrint (asc ''1/2/2026'') (asc ''{{PRINT_{{#A}}{{/A}}DATE}}'') []
     = Inr (asc ''<div class=\"print-order\">1/2/2026</div>'')
   \<and> renderOrderForPrint (asc ''12/31/2026'') (asc ''{{PRINT_{{#A}}{{/A}}DATE}}'') []
     = Inr (asc ''<div class=\"print-order\">12/31/2026</div>'')"
  by (simp add: renderOrderForPrint_def renderPreview_def renderHtml_def matchConditional_def
        matchPlaceholder_def matchKey_def stripPrefix_def conditionalValue_def placeholderValue_def
        trim_def isWhiteSpace_def getProp_def inherited_def escHtml_def replaceChar_def
        numberTruthy_def isNumberText_def isDecimalText_def isDigit_def hasOwn_def)

subsection \<open>C8: the field catalog\<close>

text \<open>
  Claim C8. For an order (an object: its keys are distinct), the catalog \<open>allFields\<close> is
  one entry per field in the order \<open>Object.keys\<close> gives, the field \<open>Line Items\<close> left out,
  each with the first 40 code units of the display string of its value as preview and
  nothing appended, followed by the entry of \<open>LINE_ITEMS_TABLE\<close> and then the entry of
  \<open>PRINT_DATE\<close>. (The data model has lists under \<open>Line Items\<close> only. Should another field
  hold a list with an item that has a field named \<open>toString\<close>, that field has no display
  string and building the catalog throws.)
\<close>

theorem allFields_catalog:
  assumes "distinct (map fst order)"
  shows "allFields order =
           (if \<exists>(k, v) \<in> set order. k \<noteq> asc ''Line Items'' \<and> stringOfValue (Some v) = Inl TypeError
            then Inl TypeError
            else Inr (map (\<lambda>(k, v). (k, preview_spec v))
                        (filter (\<lambda>(k, v). k \<noteq> asc ''Line Items'') order)
                      @ [(asc ''LINE_ITEMS_TABLE'', asc ''Renders a table of line items''),
                         (asc ''PRINT_DATE'', asc ''Today's date at print time'')]))"
proof -
  let ?f = "\<lambda>k. andThen (stringOfValue (nullish (getProp order k) (Some (Scalar (Str [])))))
               (\<lambda>s. Inr (k, take 40 s))"
  let ?kept = "filter (\<lambda>(k, v). k \<noteq> asc ''Line Items'') order"
  have look: "getProp order k = Some v" if "(k, v) \<in> set order" for k v
    using that assms by (simp add: getProp_def)
  have f: "?f k = (if stringOfValue (Some v) = Inl TypeError then Inl TypeError else Inr (k, preview_spec v))"
    if "(k, v) \<in> set order" for k v
    using look [OF that] note_of_field [of v k] by simp
  have keys: "filter (\<lambda>k. k \<noteq> asc ''Line Items'') (map fst order) = map fst ?kept"
    by (simp add: filter_map comp_def case_prod_unfold)
  have fields: "orderFields order = mapResult (\<lambda>p. ?f (fst p)) ?kept"
  proof -
    have "mapResult g (map h xs) = mapResult (\<lambda>x. g (h x)) xs" for g :: "jsstring \<Rightarrow> error + (jsstring \<times> jsstring)"
      and h :: "jsstring \<times> jsval \<Rightarrow> jsstring" and xs
      by (induction xs) simp_all
    then show ?thesis
      unfolding orderFields_def keys by simp
  qed
  show ?thesis
  proof (cases "\<exists>(k, v) \<in> set order. k \<noteq> asc ''Line Items'' \<and> stringOfValue (Some v) = Inl TypeError")
    case True
    then obtain k v where kv: "(k, v) \<in> set order" "k \<noteq> asc ''Line Items''"
      "stringOfValue (Some v) = Inl TypeError" by auto
    then have "(k, v) \<in> set ?kept" by simp
    moreover have "?f (fst (k, v)) = Inl TypeError"
      using f [OF kv(1)] kv(3) by simp
    ultimately have "mapResult (\<lambda>p. ?f (fst p)) ?kept = Inl TypeError"
      by (rule mapResult_Inl)
    with True fields show ?thesis
      by (simp add: allFields_def)
  next
    case False
    have "mapResult (\<lambda>p. ?f (fst p)) ?kept = Inr (map (\<lambda>(k, v). (k, preview_spec v)) ?kept)"
    proof (rule mapResult_Inr)
      fix p assume p: "p \<in> set ?kept"
      obtain k v where kv: "p = (k, v)" by (cases p)
      with p have in_order: "(k, v) \<in> set order" and "k \<noteq> asc ''Line Items''" by simp_all
      with False have "stringOfValue (Some v) \<noteq> Inl TypeError" by auto
      then show "?f (fst p) = Inr (case p of (k, v) \<Rightarrow> (k, preview_spec v))"
        using f [OF in_order] kv by simp
    qed
    with False fields show ?thesis
      by (simp add: allFields_def specialFields_def)
  qed
qed

text \<open>The theorem on the order \<open>{X: 1, Y: 2, 'Line Items': []}\<close> of the specification.\<close>

theorem allFields_catalog_witness:
  "allFields [(asc ''X'', Scalar (Num (number (asc ''1'')))), (asc ''Y'', Scalar (Num (number (asc ''2'')))),
              (asc ''Line Items'', Arr [])]
     = Inr [(asc ''X'', asc ''1''), (asc ''Y'', asc ''2''),
            (asc ''LINE_ITEMS_TABLE'', asc ''Renders a table of line items''),
            (asc ''PRINT_DATE'', asc ''Today's date at print time'')]"
  using allFields_catalog
      [of "[(asc ''X'', Scalar (Num (number (asc ''1'')))), (asc ''Y'', Scalar (Num (number (asc ''2'')))),
            (asc ''Line Items'', Arr [])]"]
  by (simp add: preview_spec_def display_spec_def isNumberText_def isDecimalText_def isDigit_def)

subsection \<open>C9: the two default templates\<close>

text \<open>
  Claim C9. The default template of the designer and the default template of the printing
  script are the same string, code unit by code unit.
\<close>

theorem default_templates_equal: "DEFAULT_TEMPLATE_designer = DEFAULT_TEMPLATE_app"
  unfolding DEFAULT_TEMPLATE_designer_def DEFAULT_TEMPLATE_app_def by (rule refl)

subsection \<open>C10: single quotes\<close>

text \<open>
  Claim C10. The escaper leaves every single quote where it is: a single quote of the
  input is a single quote of the output, between the escaped text before it and the
  escaped text after it. The four characters \<open>&\<close>, \<open><\<close>, \<open>>\<close> and the double quote are
  the only ones the escaper rewrites; any other character, the single quote among them,
  is copied.
\<close>

theorem escHtml_keeps_single_quote:
  "escHtml (Some (Str (a @ [of_char CHR 0x27] @ b)))
     = escHtml (Some (Str a)) @ [of_char CHR 0x27] @ escHtml (Some (Str b))
   \<and> (c \<notin> {of_char CHR ''&'', of_char CHR ''<'', of_char CHR ''>'', of_char CHR 0x22}
        \<longrightarrow> escHtml (Some (Str (a @ [c] @ b)))
              = escHtml (Some (Str a)) @ [c] @ escHtml (Some (Str b)))"
  by (simp add: escHtml_escape_spec escape_spec_def escape_char_spec_def)

theorem escHtml_keeps_single_quote_witness:
  "escHtml (Some (Str (asc ''it'' @ [of_char CHR 0x27] @ asc ''s <b>''))) = asc ''it's &lt;b&gt;''
   \<and> escHtml (Some (Str (asc ''a'' @ [of_char CHR ''-''] @ asc ''&''))) = asc ''a-&amp;''"
  using escHtml_keeps_single_quote [of "asc ''it''" "asc ''s <b>''" "of_char CHR ''-''"]
    escHtml_keeps_single_quote [of "asc ''a''" "asc ''&''" "of_char CHR ''-''"]
  by (simp add: escHtml_def replaceChar_def)

end
